theory Spec2Isabelle
  imports Main "HOL-Library.Multiset"
begin

section \<open>The product catalog service of the payment server\<close>

text \<open>
  The development embeds the class \<open>ProductCatalogService\<close> of the server (the catalog
  cache, its organizer and the read operations built on them) together with the
  \<open>GET /products\<close> handler.

  Conventions of the embedding.
  \<^item> An exception is a value \<open>Inl e\<close> of a sum type; a normal return is \<open>Inr v\<close>.
  \<^item> An object used as a dictionary is a map of its own properties. Where the code
    reads such an object under a key that a caller chooses, in \<open>validatePriceId\<close>, the
    read follows the prototype chain: what plain objects inherit (\<open>constructor\<close>,
    \<open>toString\<close>, ...) belongs to the runtime and is a parameter of the model.
  \<^item> Logging is left out: it has no influence on any value computed here.
  \<^item> A string is a list of 8-bit characters. Case folding and the white space class
    are modelled on ASCII.
  \<^item> Numbers that the code handles are integers (time stamps in milliseconds, amounts in
    minor units, display orders); they are modelled as unbounded integers, which agrees
    with double precision arithmetic below \<open>2 ^ 53\<close>.
  \<^item> The module-level variable \<open>productCatalogCache\<close> is a component of an explicit
    server state that every operation takes and returns. Calls run one after another.
\<close>

subsection \<open>Values of the runtime\<close>

datatype js_error = StripeError string | SyntaxError string | TypeError string

fun message :: "js_error \<Rightarrow> string" where
  "message (StripeError m) = m"
| "message (SyntaxError m) = m"
| "message (TypeError m) = m"

text \<open>A parsed JSON text. A number keeps its literal.\<close>

datatype json =
    JNull
  | JBool bool
  | JNumber string
  | JString string
  | JArray "json list"
  | JObject "(string \<times> json) list"

text \<open>
  \<open>JSON.parse\<close> is a builtin of the runtime. The model takes it as a parameter: a function
  from the text to the parsed value, or to the \<open>SyntaxError\<close> that it throws.
\<close>

type_synonym json_parser = "string \<Rightarrow> js_error + json"

text \<open>\<open>a || b\<close> where \<open>a\<close> is a string or \<open>undefined\<close>: the empty string is falsy.\<close>

definition or_string :: "string option \<Rightarrow> string \<Rightarrow> string" where
  "or_string a b = (case a of None \<Rightarrow> b | Some s \<Rightarrow> if s = [] then b else s)"

text \<open>\<open>a || b\<close> where \<open>a\<close> is a number: \<open>NaN\<close> (here \<open>None\<close>) and zero are falsy.\<close>

definition or_number :: "int option \<Rightarrow> int \<Rightarrow> int" where
  "or_number a b = (case a of None \<Rightarrow> b | Some n \<Rightarrow> if n = 0 then b else n)"

definition is_whitespace :: "char \<Rightarrow> bool" where
  "is_whitespace c = ((of_char c :: nat) \<in> set [9, 10, 11, 12, 13, 32])"

definition digit_value :: "char \<Rightarrow> nat option" where
  "digit_value c =
     (let n = (of_char c :: nat) in
      if 48 \<le> n \<and> n \<le> 57 then Some (n - 48)
      else if 97 \<le> n \<and> n \<le> 122 then Some (n - 87)
      else if 65 \<le> n \<and> n \<le> 90 then Some (n - 55)
      else None)"

definition is_digit_of :: "nat \<Rightarrow> char \<Rightarrow> bool" where
  "is_digit_of R c = (case digit_value c of None \<Rightarrow> False | Some d \<Rightarrow> d < R)"

definition digits_value :: "nat \<Rightarrow> string \<Rightarrow> nat" where
  "digits_value R ds =
     foldl (\<lambda>acc c. acc * R + (case digit_value c of None \<Rightarrow> 0 | Some d \<Rightarrow> d)) 0 ds"

text \<open>
  \<open>parseInt(v)\<close> with no radix argument, as the language defines it: \<open>undefined\<close> is read as
  the text \<open>undefined\<close>, which has no digit; leading white space is dropped; one sign is
  read; a prefix \<open>0x\<close> or \<open>0X\<close> selects base 16; the longest prefix of digits is the
  value; no digit at all gives \<open>NaN\<close> (here \<open>None\<close>).
\<close>

definition parseInt :: "string option \<Rightarrow> int option" where
  "parseInt v =
     (case v of
        None \<Rightarrow> None
      | Some s \<Rightarrow>
          let s1 = dropWhile is_whitespace s;
              sign = (if take 1 s1 = ''-'' then - 1 else 1);
              s2 = (if take 1 s1 = ''-'' \<or> take 1 s1 = ''+'' then drop 1 s1 else s1);
              hex = (take 2 s2 = ''0x'' \<or> take 2 s2 = ''0X'');
              R = (if hex then 16 else 10);
              s3 = (if hex then drop 2 s2 else s2);
              ds = takeWhile (is_digit_of R) s3
          in if ds = [] then None else Some (sign * int (digits_value R ds)))"

definition toLowerCase :: "string \<Rightarrow> string" where
  "toLowerCase s =
     map (\<lambda>c. let n = (of_char c :: nat) in if 65 \<le> n \<and> n \<le> 90 then char_of (n + 32) else c) s"

text \<open>\<open>s.replace(/\s+/g, '-')\<close>: every maximal run of white space becomes one hyphen.\<close>

function replace_whitespace :: "string \<Rightarrow> string" where
  "replace_whitespace [] = []"
| "replace_whitespace (c # cs) =
     (if is_whitespace c then CHR ''-'' # replace_whitespace (dropWhile is_whitespace cs)
      else c # replace_whitespace cs)"
  by pat_completeness auto
termination
  by (relation "measure length") (auto simp: length_dropWhile_le less_Suc_eq_le)

text \<open>
  \<open>Array.prototype.sort(cmp)\<close> is a builtin; the language requires it to be stable. It is
  modelled by insertion from the right end: an element goes in front of the first
  element that it does not exceed, so that it stays in front of its equals.
\<close>

fun sort_insert :: "('a \<Rightarrow> 'a \<Rightarrow> int) \<Rightarrow> 'a \<Rightarrow> 'a list \<Rightarrow> 'a list" where
  "sort_insert cmp a [] = [a]"
| "sort_insert cmp a (b # bs) =
     (if cmp a b \<le> 0 then a # b # bs else b # sort_insert cmp a bs)"

definition array_sort :: "('a \<Rightarrow> 'a \<Rightarrow> int) \<Rightarrow> 'a list \<Rightarrow> 'a list" where
  "array_sort cmp xs = foldr (sort_insert cmp) xs []"

subsection \<open>Data of the gateway and of the catalog\<close>

record raw_product =
  id :: string
  name :: string
  description :: "string option"
  active :: bool
  metadata :: "string \<rightharpoonup> string"

record recurring_descriptor =
  interval :: string
  interval_count :: int

text \<open>
  The product reference of a price is the identifier of the product, or the product
  object itself when the list call asks the gateway to expand it.
\<close>

datatype product_ref = ProductId string | ProductObject raw_product

record raw_price =
  id :: string
  product :: product_ref
  active :: bool
  unit_amount :: int
  currency :: string
  recurring :: "recurring_descriptor option"

record price_variant =
  priceId :: string
  unitAmount :: int
  currency :: string
  interval :: "string option"
  intervalCount :: "int option"

type_synonym price_variations = "string \<rightharpoonup> price_variant"

record plan =
  id :: string
  name :: string
  description :: "string option"
  planId :: string
  planType :: string
  displayOrder :: int
  features :: json
  metadata :: "string \<rightharpoonup> string"
  prices :: price_variations
  active :: bool

record organized_catalog =
  products :: "plan list"
  prices :: "string \<rightharpoonup> price_variations"

record catalog_cache = organized_catalog +
  lastUpdated :: "int option"
  cacheExpiry :: int

text \<open>\<open>price.product === product.id\<close>: an object is never strictly equal to a string.\<close>

fun strict_equal :: "product_ref \<Rightarrow> string \<Rightarrow> bool" where
  "strict_equal (ProductId s) t = (s = t)"
| "strict_equal (ProductObject obj) t = False"

subsection \<open>The organizer\<close>

text \<open>The body of the loop over the prices of one product.\<close>

definition add_price :: "price_variations \<Rightarrow> raw_price \<Rightarrow> price_variations" where
  "add_price priceVariations price =
     (case raw_price.recurring price of
        Some r \<Rightarrow>
          let interval = recurring_descriptor.interval r;
              intervalKey = (if interval = ''month'' then ''monthly'' else ''yearly'')
          in priceVariations(intervalKey \<mapsto>
               \<lparr> priceId = raw_price.id price,
                 unitAmount = unit_amount price,
                 currency = raw_price.currency price,
                 interval = Some (recurring_descriptor.interval r),
                 intervalCount = Some (interval_count r) \<rparr>)
      | None \<Rightarrow>
          priceVariations(''one_time'' \<mapsto>
               \<lparr> priceId = raw_price.id price,
                 unitAmount = unit_amount price,
                 currency = raw_price.currency price,
                 interval = None,
                 intervalCount = None \<rparr>))"

text \<open>
  The body of the loop over the products, up to the plan that it pushes. The loop
  variable \<open>product\<close> is written \<open>item\<close>, and the parameters \<open>products\<close> and \<open>prices\<close>
  are written \<open>all_products\<close> and \<open>all_prices\<close>: the short names are field names.
\<close>

definition organize_product :: "json_parser \<Rightarrow> raw_price list \<Rightarrow> raw_product \<Rightarrow> js_error + plan" where
  "organize_product JSON_parse all_prices item =
     (let planId = or_string (raw_product.metadata item ''plan_id'')
                     (replace_whitespace (toLowerCase (raw_product.name item)));
          planType = or_string (raw_product.metadata item ''plan_type'') ''subscription'';
          displayOrder = or_number (parseInt (raw_product.metadata item ''display_order'')) 999;
          productPrices =
            filter (\<lambda>price. strict_equal (raw_price.product price) (raw_product.id item)) all_prices;
          priceVariations = foldl add_price Map.empty productPrices
      in case (case raw_product.metadata item ''features'' of
                 None \<Rightarrow> Inr (JArray [])
               | Some s \<Rightarrow> if s = [] then Inr (JArray []) else JSON_parse s) of
           Inl e \<Rightarrow> Inl e
         | Inr parsed \<Rightarrow>
             Inr \<lparr> plan.id = raw_product.id item,
                   name = raw_product.name item,
                   description = raw_product.description item,
                   planId = planId,
                   planType = planType,
                   displayOrder = displayOrder,
                   features = parsed,
                   metadata = raw_product.metadata item,
                   prices = priceVariations,
                   active = raw_product.active item \<rparr>)"

text \<open>
  The loop over the products. The accumulator holds \<open>organizedProducts\<close> and
  \<open>organizedPrices\<close>; an exception of the body ends the loop.
\<close>

fun organize_loop ::
  "json_parser \<Rightarrow> raw_price list \<Rightarrow> raw_product list \<Rightarrow>
   plan list \<times> (string \<rightharpoonup> price_variations) \<Rightarrow>
   js_error + plan list \<times> (string \<rightharpoonup> price_variations)" where
  "organize_loop JSON_parse all_prices [] acc = Inr acc"
| "organize_loop JSON_parse all_prices (item # rest) (organizedProducts, organizedPrices) =
     (case organize_product JSON_parse all_prices item of
        Inl e \<Rightarrow> Inl e
      | Inr organizedProduct \<Rightarrow>
          organize_loop JSON_parse all_prices rest
            (organizedProducts @ [organizedProduct],
             organizedPrices(planId organizedProduct \<mapsto> plan.prices organizedProduct)))"

definition compare_displayOrder :: "plan \<Rightarrow> plan \<Rightarrow> int" where
  "compare_displayOrder a b = displayOrder a - displayOrder b"

definition organizeProductCatalog ::
  "json_parser \<Rightarrow> raw_product list \<Rightarrow> raw_price list \<Rightarrow> js_error + organized_catalog" where
  "organizeProductCatalog JSON_parse all_products all_prices =
     (case organize_loop JSON_parse all_prices all_products ([], Map.empty) of
        Inl e \<Rightarrow> Inl e
      | Inr (organizedProducts, organizedPrices) \<Rightarrow>
          Inr \<lparr> products = array_sort compare_displayOrder organizedProducts,
                prices = organizedPrices \<rparr>)"

subsection \<open>The cache and the operations that read it\<close>

text \<open>
  The state of the server that the service uses: the module-level cache, and a counter
  of the calls of \<open>fetchProducts\<close>. The counter is not a variable of the code; it records
  how often the gateway has been asked, so that statements about the number of fetches
  can be written.
\<close>

record server_state =
  productCatalogCache :: catalog_cache
  gateway_fetches :: nat

text \<open>The value of \<open>productCatalogCache\<close> when the module is loaded.\<close>

definition initial_cache :: catalog_cache where
  "initial_cache =
     \<lparr> products = [], prices = Map.empty, lastUpdated = None, cacheExpiry = 5 * 60 * 1000 \<rparr>"

text \<open>
  What one call meets outside the server: the answers of the two list calls of the
  gateway (a list, or the error thrown), the clock read at the entry of
  \<open>getProductCatalog\<close>, and the clock read when \<open>fetchProducts\<close> stores the new cache.
\<close>

record call_env =
  stripe_products_list :: "js_error + raw_product list"
  stripe_prices_list :: "js_error + raw_price list"
  now :: int
  now_at_update :: int

definition fetchProducts ::
  "json_parser \<Rightarrow> call_env \<Rightarrow> server_state \<Rightarrow> (js_error + catalog_cache) \<times> server_state" where
  "fetchProducts JSON_parse env st =
     (let st1 = st\<lparr> gateway_fetches := gateway_fetches st + 1 \<rparr> in
      case stripe_products_list env of
        Inl error \<Rightarrow> (Inl error, st1)
      | Inr all_products \<Rightarrow>
          (case stripe_prices_list env of
             Inl error \<Rightarrow> (Inl error, st1)
           | Inr all_prices \<Rightarrow>
               (case organizeProductCatalog JSON_parse all_products all_prices of
                  Inl error \<Rightarrow> (Inl error, st1)
                | Inr organizedCatalog \<Rightarrow>
                    let cache = \<lparr> products = products organizedCatalog,
                                  prices = organized_catalog.prices organizedCatalog,
                                  lastUpdated = Some (now_at_update env),
                                  cacheExpiry = 5 * 60 * 1000 \<rparr>
                    in (Inr cache, st1\<lparr> productCatalogCache := cache \<rparr>))))"

definition getProductCatalog ::
  "json_parser \<Rightarrow> bool \<Rightarrow> call_env \<Rightarrow> server_state \<Rightarrow> (js_error + catalog_cache) \<times> server_state" where
  "getProductCatalog JSON_parse forceRefresh env st =
     (let cacheExpired =
            (case lastUpdated (productCatalogCache st) of
               None \<Rightarrow> True
             | Some t \<Rightarrow> t = 0 \<or> now env - t > cacheExpiry (productCatalogCache st))
      in if forceRefresh \<or> cacheExpired \<or> length (products (productCatalogCache st)) = 0
         then fetchProducts JSON_parse env st
         else (Inr (productCatalogCache st), st))"

text \<open>
  The values that a property read of \<open>validatePriceId\<close> can meet: the primitive values,
  the two kinds of objects that the organizer builds (the price variations of a plan,
  and one price variant), and the values that belong to the runtime, such as the
  builtin functions and the prototype that plain objects inherit from.
\<close>

datatype 'f js_value =
    Undefined
  | Null
  | Boolean bool
  | Number int
  | String string
  | Variations price_variations
  | Variant price_variant
  | Foreign 'f

text \<open>
  The part of the runtime that the reads depend on: \<open>inherited k\<close> is what a plain
  object without own property \<open>k\<close> yields for \<open>k\<close> (\<open>undefined\<close> when its prototype has no
  such member), and \<open>get_other v k\<close> is the read of property \<open>k\<close> of a value \<open>v\<close> that is
  not an object of the organizer, which yields a value or throws.
\<close>

record 'f runtime =
  inherited :: "string \<Rightarrow> 'f js_value"
  get_other :: "'f js_value \<Rightarrow> string \<Rightarrow> js_error + 'f js_value"

text \<open>The operand of \<open>!\<close>: objects and functions are truthy.\<close>

fun truthy :: "'f js_value \<Rightarrow> bool" where
  "truthy Undefined = False"
| "truthy Null = False"
| "truthy (Boolean b) = b"
| "truthy (Number n) = (n \<noteq> 0)"
| "truthy (String s) = (s \<noteq> [])"
| "truthy (Variations pv) = True"
| "truthy (Variant v) = True"
| "truthy (Foreign f) = True"

text \<open>The own properties of a price variant, as the organizer writes them.\<close>

definition variant_property :: "price_variant \<Rightarrow> string \<Rightarrow> 'f js_value option" where
  "variant_property v k =
     (if k = ''priceId'' then Some (String (priceId v))
      else if k = ''unitAmount'' then Some (Number (unitAmount v))
      else if k = ''currency'' then Some (String (price_variant.currency v))
      else if k = ''interval'' then map_option String (price_variant.interval v)
      else if k = ''intervalCount'' then map_option Number (intervalCount v)
      else None)"

text \<open>The read \<open>v[k]\<close>: an own property first, then what the object inherits.\<close>

definition get_property :: "'f runtime \<Rightarrow> 'f js_value \<Rightarrow> string \<Rightarrow> js_error + 'f js_value" where
  "get_property rt v k =
     (case v of
        Undefined \<Rightarrow> Inl (TypeError ''Cannot read properties of undefined'')
      | Null \<Rightarrow> Inl (TypeError ''Cannot read properties of null'')
      | Variations pv \<Rightarrow>
          Inr (case pv k of Some variant \<Rightarrow> Variant variant | None \<Rightarrow> inherited rt k)
      | Variant variant \<Rightarrow>
          Inr (case variant_property variant k of Some x \<Rightarrow> x | None \<Rightarrow> inherited rt k)
      | _ \<Rightarrow> get_other rt v k)"

text \<open>
  The read \<open>catalog.prices[planId]\<close>. The lookup object is a plain object to which the
  organizer has assigned one entry for each plan. An assignment under the key
  \<open>__proto__\<close> does not make an own property: it makes the assigned object the prototype
  of the lookup object. The entry of the map under that key stands for this prototype,
  which a read under that key returns and which the reads under absent keys go
  through.
\<close>

definition prices_member :: "'f runtime \<Rightarrow> catalog_cache \<Rightarrow> string \<Rightarrow> 'f js_value" where
  "prices_member rt catalog k =
     (case organized_catalog.prices catalog k of
        Some planPrices \<Rightarrow> Variations planPrices
      | None \<Rightarrow>
          (case organized_catalog.prices catalog ''__proto__'' of
             None \<Rightarrow> inherited rt k
           | Some proto \<Rightarrow>
               (case proto k of Some variant \<Rightarrow> Variant variant | None \<Rightarrow> inherited rt k)))"

text \<open>
  The parameter \<open>planId\<close> is written \<open>plan_key\<close>: the short name is a field name. The code
  reads \<open>planPrices[billingCycle]\<close> once in the test and once more in the \<open>return\<close>.
\<close>

definition validatePriceId ::
  "'f runtime \<Rightarrow> json_parser \<Rightarrow> string \<Rightarrow> string \<Rightarrow> call_env \<Rightarrow> server_state \<Rightarrow>
   (js_error + 'f js_value) \<times> server_state" where
  "validatePriceId rt JSON_parse plan_key billingCycle env st =
     (case getProductCatalog JSON_parse False env st of
        (Inl error, st') \<Rightarrow> (Inl error, st')
      | (Inr catalog, st') \<Rightarrow>
          (let planPrices = prices_member rt catalog plan_key in
           if \<not> truthy planPrices then (Inr Null, st')
           else
             (case get_property rt planPrices billingCycle of
                Inl error \<Rightarrow> (Inl error, st')
              | Inr tested \<Rightarrow>
                  if \<not> truthy tested then (Inr Null, st')
                  else
                    (case get_property rt planPrices billingCycle of
                       Inl error \<Rightarrow> (Inl error, st')
                     | Inr entry \<Rightarrow>
                         (case get_property rt entry ''priceId'' of
                            Inl error \<Rightarrow> (Inl error, st')
                          | Inr result \<Rightarrow> (Inr result, st'))))))"

text \<open>
  The handler of \<open>GET /products\<close>. Its argument is the query parameter \<open>refresh\<close>
  (\<open>None\<close> when the request has none); its answer is the status and the body.
\<close>

datatype http_response =
    Json200 "plan list" "int option" int
  | Json500 string string

definition get_products_handler ::
  "json_parser \<Rightarrow> string option \<Rightarrow> call_env \<Rightarrow> server_state \<Rightarrow> http_response \<times> server_state" where
  "get_products_handler JSON_parse refresh env st =
     (let forceRefresh = (refresh = Some ''true'') in
      case getProductCatalog JSON_parse forceRefresh env st of
        (Inl error, st') \<Rightarrow> (Json500 ''Failed to fetch product catalog'' (message error), st')
      | (Inr catalog, st') \<Rightarrow>
          (Json200 (products catalog) (lastUpdated catalog) (cacheExpiry catalog), st'))"

subsection \<open>The words of the specification\<close>

text \<open>
  The rule of the specification for the key of a price: a recurring price with interval
  \<open>month\<close> goes under \<open>monthly\<close>, a recurring price with any other interval under
  \<open>yearly\<close>, a price without recurring descriptor under \<open>one_time\<close>.
\<close>

definition billing_key :: "raw_price \<Rightarrow> string" where
  "billing_key price =
     (case raw_price.recurring price of
        None \<Rightarrow> ''one_time''
      | Some r \<Rightarrow> if recurring_descriptor.interval r = ''month'' then ''monthly'' else ''yearly'')"

text \<open>The price variant of the specification: the fields of the price it is made of.\<close>

definition variant_of :: "raw_price \<Rightarrow> price_variant" where
  "variant_of price =
     \<lparr> priceId = raw_price.id price,
       unitAmount = unit_amount price,
       currency = raw_price.currency price,
       interval = map_option recurring_descriptor.interval (raw_price.recurring price),
       intervalCount = map_option interval_count (raw_price.recurring price) \<rparr>"

text \<open>The last element of a list in iteration order, if there is one.\<close>

definition last_option :: "'a list \<Rightarrow> 'a option" where
  "last_option xs = (case rev xs of [] \<Rightarrow> None | x # _ \<Rightarrow> Some x)"

text \<open>The prices that the filter of the organizer keeps for one product.\<close>

definition matched_prices :: "raw_price list \<Rightarrow> raw_product \<Rightarrow> raw_price list" where
  "matched_prices all_prices item =
     filter (\<lambda>price. strict_equal (raw_price.product price) (raw_product.id item)) all_prices"

text \<open>The product that a reference stands for, in either of its two shapes.\<close>

definition denoted_product :: "product_ref \<Rightarrow> string" where
  "denoted_product r = (case r of ProductId s \<Rightarrow> s | ProductObject obj \<Rightarrow> raw_product.id obj)"

definition is_object :: "product_ref \<Rightarrow> bool" where
  "is_object r = (case r of ProductId s \<Rightarrow> False | ProductObject obj \<Rightarrow> True)"

subsection \<open>Sample inputs\<close>

text \<open>A parser that accepts no text, for inputs without \<open>features\<close> metadata.\<close>

definition reject_json :: json_parser where
  "reject_json s = Inl (SyntaxError s)"

text \<open>The product and the price of scenario A of the specification.\<close>

definition essential_product :: raw_product where
  "essential_product =
     \<lparr> raw_product.id = ''prod_123'', name = ''Essential'', description = None, active = True,
       metadata = [''plan_id'' \<mapsto> ''essential'', ''display_order'' \<mapsto> ''1''] \<rparr>"

definition monthly_price :: raw_price where
  "monthly_price =
     \<lparr> raw_price.id = ''price_m'', product = ProductId ''prod_123'', active = True,
       unit_amount = 4900, currency = ''usd'',
       recurring = Some \<lparr> recurring_descriptor.interval = ''month'', interval_count = 1 \<rparr> \<rparr>"

text \<open>A second monthly price of the same product.\<close>

definition monthly_price_2 :: raw_price where
  "monthly_price_2 = monthly_price \<lparr> raw_price.id := ''price_m2'', unit_amount := 5900 \<rparr>"

text \<open>A product whose \<open>display_order\<close> is the text \<open>0\<close>, and one without any metadata.\<close>

definition zero_order_product :: raw_product where
  "zero_order_product =
     \<lparr> raw_product.id = ''prod_456'', name = ''Growth'', description = None, active = True,
       metadata = [''plan_id'' \<mapsto> ''growth'', ''display_order'' \<mapsto> ''0''] \<rparr>"

definition plain_product :: raw_product where
  "plain_product =
     \<lparr> raw_product.id = ''prod_789'', name = ''Starter  Plan'', description = None, active = True,
       metadata = Map.empty \<rparr>"

text \<open>
  The price of scenario B of the specification: the price of scenario A with the
  product object in the place of the product identifier.
\<close>

definition expanded_price :: raw_price where
  "expanded_price = monthly_price \<lparr> product := ProductObject essential_product \<rparr>"

subsection \<open>Sample states and calls\<close>

text \<open>
  The error of a refresh attempt, if it has one: the error of the first list call, of
  the second list call, or of the organize pass, in this order.
\<close>

definition refresh_error :: "json_parser \<Rightarrow> call_env \<Rightarrow> js_error option" where
  "refresh_error JSON_parse env =
     (case stripe_products_list env of
        Inl error \<Rightarrow> Some error
      | Inr all_products \<Rightarrow>
          (case stripe_prices_list env of
             Inl error \<Rightarrow> Some error
           | Inr all_prices \<Rightarrow>
               (case organizeProductCatalog JSON_parse all_products all_prices of
                  Inl error \<Rightarrow> Some error
                | Inr organizedCatalog \<Rightarrow> None)))"

text \<open>The server before any call: the cache as the module creates it, no fetch made.\<close>

definition initial_state :: server_state where
  "initial_state = \<lparr> productCatalogCache = initial_cache, gateway_fetches = 0 \<rparr>"

text \<open>A call during which the gateway cannot be reached.\<close>

definition failing_env :: call_env where
  "failing_env =
     \<lparr> stripe_products_list = Inl (StripeError ''connection refused''),
       stripe_prices_list = Inl (StripeError ''connection refused''),
       now = 1000, now_at_update = 1000 \<rparr>"

text \<open>A call at time \<open>t\<close> during which the gateway lists no product and no price.\<close>

definition empty_gateway_env :: "int \<Rightarrow> call_env" where
  "empty_gateway_env t =
     \<lparr> stripe_products_list = Inr [], stripe_prices_list = Inr [], now = t, now_at_update = t \<rparr>"

text \<open>A call at time \<open>t\<close> during which the gateway lists the data of scenario A.\<close>

definition essential_env :: "int \<Rightarrow> call_env" where
  "essential_env t =
     \<lparr> stripe_products_list = Inr [essential_product], stripe_prices_list = Inr [monthly_price],
       now = t, now_at_update = t \<rparr>"




text \<open>
  A runtime for the examples. Plain objects inherit the members that the language
  gives to \<open>Object.prototype\<close>: the constructor \<open>Object\<close>, the methods listed below, and
  the accessor \<open>__proto__\<close>, which yields the prototype itself. Of the properties of a
  builtin function the sample has the name, and the two restricted properties \<open>caller\<close>
  and \<open>arguments\<close>, whose read throws a \<open>TypeError\<close>; every other read of a value of the
  runtime gives \<open>undefined\<close> in the sample, and the examples use none.
\<close>

datatype builtin = ObjectPrototype | BuiltinFunction string

definition object_prototype_methods :: "string list" where
  "object_prototype_methods =
     [''hasOwnProperty'', ''isPrototypeOf'', ''propertyIsEnumerable'', ''toLocaleString'',
      ''toString'', ''valueOf'', ''__defineGetter__'', ''__defineSetter__'',
      ''__lookupGetter__'', ''__lookupSetter__'']"

definition sample_runtime :: "builtin runtime" where
  "sample_runtime =
     \<lparr> inherited = (\<lambda>k.
         if k = ''__proto__'' then Foreign ObjectPrototype
         else if k = ''constructor'' then Foreign (BuiltinFunction ''Object'')
         else if k \<in> set object_prototype_methods then Foreign (BuiltinFunction k)
         else Undefined),
       get_other = (\<lambda>v k.
         case v of
           Foreign (BuiltinFunction n) \<Rightarrow>
             if k = ''caller'' \<or> k = ''arguments''
             then Inl (TypeError ''restricted function property'')
             else if k = ''name'' then Inr (String n)
             else Inr Undefined
         | _ \<Rightarrow> Inr Undefined) \<rparr>"

subsection \<open>Auxiliary facts about the organizer\<close>

lemma add_price_upd: "add_price pv price = pv(billing_key price \<mapsto> variant_of price)"
  by (simp add: add_price_def billing_key_def variant_of_def Let_def split: option.splits)

lemma foldl_add_price:
  "foldl add_price pv ps k =
     (case last_option (filter (\<lambda>p. billing_key p = k) ps) of
        None \<Rightarrow> pv k
      | Some p \<Rightarrow> Some (variant_of p))"
  by (induction ps arbitrary: pv rule: rev_induct)
     (simp_all add: last_option_def add_price_upd)

lemma last_option_mem: "last_option xs = Some x \<Longrightarrow> x \<in> set xs"
  by (cases "rev xs") (auto simp: last_option_def dest: arg_cong [where f = set])

lemma sort_insert_insort:
  "sort_insert compare_displayOrder a bs = insort_key displayOrder a bs"
  by (induction bs) (simp_all add: compare_displayOrder_def)

lemma array_sort_sort_key:
  "array_sort compare_displayOrder xs = sort_key displayOrder xs"
  unfolding array_sort_def sort_key_def
  by (induction xs) (simp_all add: sort_insert_insort)

text \<open>
  A loop that ends normally has pushed one plan for each product, in the order of the
  products, behind the plans it started with.
\<close>

lemma organize_loop_plans:
  "organize_loop P prs ps (ops, opr) = Inr (ops', opr') \<Longrightarrow>
     \<exists>pls. map (organize_product P prs) ps = map Inr pls \<and> ops' = ops @ pls"
proof (induction ps arbitrary: ops opr)
  case Nil
  then show ?case by simp
next
  case (Cons p ps)
  from Cons.prems obtain pl where pl: "organize_product P prs p = Inr pl"
    by (auto split: sum.splits)
  with Cons.prems have
    "organize_loop P prs ps (ops @ [pl], opr(planId pl \<mapsto> plan.prices pl)) = Inr (ops', opr')"
    by simp
  from Cons.IH [OF this] obtain pls where
    "map (organize_product P prs) ps = map Inr pls" "ops' = (ops @ [pl]) @ pls"
    by blast
  with pl have "map (organize_product P prs) (p # ps) = map Inr (pl # pls) \<and> ops' = ops @ (pl # pls)"
    by simp
  then show ?case by blast
qed


lemma organize_sorted_plans:
  assumes "organizeProductCatalog P ps prs = Inr out"
  shows "\<exists>pls. map (organize_product P prs) ps = map Inr pls \<and>
           products out = sort_key displayOrder pls"
proof -
  from assms obtain ops opr where
    loop: "organize_loop P prs ps ([], Map.empty) = Inr (ops, opr)"
    and out: "out = \<lparr> products = array_sort compare_displayOrder ops, prices = opr \<rparr>"
    by (auto simp: organizeProductCatalog_def split: sum.splits prod.splits)
  from organize_loop_plans [OF loop] obtain pls where
    "map (organize_product P prs) ps = map Inr pls" "ops = pls" by auto
  with out show ?thesis by (auto simp: array_sort_sort_key)
qed

lemma organize_product_fields:
  assumes "organize_product P prs p = Inr pl"
  shows "plan.id pl = raw_product.id p"
    and "plan.prices pl = foldl add_price Map.empty (matched_prices prs p)"
    and "displayOrder pl = or_number (parseInt (raw_product.metadata p ''display_order'')) 999"
  using assms
  by (auto simp: organize_product_def matched_prices_def Let_def split: sum.splits)

lemma map_Inr_nth:
  "map f ps = map Inr pls \<Longrightarrow> i < length ps \<Longrightarrow> f (ps ! i) = Inr (pls ! i)"
  by (metis length_map nth_map)

lemma map_Inr_mem:
  assumes "map f ps = map Inr pls" "pl \<in> set pls"
  shows "\<exists>p \<in> set ps. f p = Inr pl"
proof -
  from assms(2) obtain i where i: "i < length pls" "pls ! i = pl"
    by (auto simp: in_set_conv_nth)
  from assms(1) have len: "length ps = length pls"
    by (metis length_map)
  with i map_Inr_nth [OF assms(1), of i] have "f (ps ! i) = Inr pl" by simp
  with i len show ?thesis by (metis nth_mem)
qed

lemma price_lookup:
  "organize_product P prs p = Inr pl \<Longrightarrow>
     plan.prices pl k =
       map_option variant_of
         (last_option (filter (\<lambda>price. billing_key price = k) (matched_prices prs p)))"
  by (simp add: organize_product_fields(2) foldl_add_price split: option.splits)

lemma organize_length:
  assumes "organizeProductCatalog P ps prs = Inr out"
  shows "length (products out) = length ps"
proof -
  from organize_sorted_plans [OF assms] obtain pls where
    m: "map (organize_product P prs) ps = map Inr pls"
    and s: "products out = sort_key displayOrder pls" by blast
  from m have "length pls = length ps" by (metis length_map)
  with s show ?thesis by simp
qed

lemma organize_single:
  assumes "organizeProductCatalog P [p] prs = Inr out"
  shows "\<exists>pl. organize_product P prs p = Inr pl \<and> products out = [pl]"
proof -
  from organize_sorted_plans [OF assms] obtain pls where
    m: "map (organize_product P prs) [p] = map Inr pls"
    and s: "products out = sort_key displayOrder pls" by blast
  from m obtain pl where "pls = [pl]" "organize_product P prs p = Inr pl"
    by (auto simp: Cons_eq_map_conv)
  with s show ?thesis by simp
qed

subsection \<open>Evaluation of the sample inputs\<close>

lemma essential_plan_exists:
  "\<exists>pl. organize_product reject_json prs essential_product = Inr pl"
  by (simp add: organize_product_def essential_product_def Let_def)

lemma sample_catalog_exists:
  "\<exists>out. organizeProductCatalog reject_json
            [zero_order_product, plain_product, essential_product] [monthly_price] = Inr out"
  by (simp add: organizeProductCatalog_def organize_product_def zero_order_product_def
        plain_product_def essential_product_def Let_def split: sum.splits prod.splits)

lemma essential_catalog_exists:
  "\<exists>out. organizeProductCatalog reject_json [essential_product] prs = Inr out"
  by (simp add: organizeProductCatalog_def organize_product_def essential_product_def Let_def
        split: sum.splits prod.splits)

lemma sample_ids_distinct:
  "distinct (map raw_product.id [zero_order_product, plain_product, essential_product])"
  by (simp add: zero_order_product_def plain_product_def essential_product_def)

lemma zero_order_parse:
  "parseInt (raw_product.metadata zero_order_product ''display_order'') = Some 0"
  by (simp add: zero_order_product_def parseInt_def is_whitespace_def is_digit_of_def
        digit_value_def digits_value_def Let_def)

lemma sample_orders:
  "or_number (parseInt (raw_product.metadata zero_order_product ''display_order'')) 999 = 999"
  "or_number (parseInt (raw_product.metadata plain_product ''display_order'')) 999 = 999"
  "or_number (parseInt (raw_product.metadata essential_product ''display_order'')) 999 = 1"
  by (simp_all add: zero_order_product_def plain_product_def essential_product_def parseInt_def
        is_whitespace_def is_digit_of_def digit_value_def digits_value_def or_number_def Let_def)

subsection \<open>Auxiliary facts about the cache\<close>

lemma fetch_fails:
  "refresh_error P env = Some err \<Longrightarrow>
     fetchProducts P env st = (Inl err, st\<lparr> gateway_fetches := gateway_fetches st + 1 \<rparr>)"
  by (auto simp: refresh_error_def fetchProducts_def Let_def split: sum.splits)

lemma fetch_succeeds:
  "stripe_products_list env = Inr ps \<Longrightarrow> stripe_prices_list env = Inr prs \<Longrightarrow>
   organizeProductCatalog P ps prs = Inr out \<Longrightarrow>
     fetchProducts P env st =
       (Inr \<lparr> products = products out, prices = organized_catalog.prices out,
               lastUpdated = Some (now_at_update env), cacheExpiry = 5 * 60 * 1000 \<rparr>,
        st\<lparr> gateway_fetches := gateway_fetches st + 1,
            productCatalogCache :=
              \<lparr> products = products out, prices = organized_catalog.prices out,
                lastUpdated = Some (now_at_update env), cacheExpiry = 5 * 60 * 1000 \<rparr> \<rparr>)"
  by (simp add: fetchProducts_def Let_def)

lemma fetch_counts: "gateway_fetches (snd (fetchProducts P env st)) = gateway_fetches st + 1"
  by (simp add: fetchProducts_def Let_def split: sum.splits)

lemma fetch_result_stored:
  "fetchProducts P env st = (Inr c, st') \<Longrightarrow> productCatalogCache st' = c"
  by (auto simp: fetchProducts_def Let_def split: sum.splits)


lemma get_forced: "getProductCatalog P True env st = fetchProducts P env st"
  by (simp add: getProductCatalog_def)

lemma get_unpopulated:
  "productCatalogCache st = initial_cache \<Longrightarrow>
     getProductCatalog P force env st = fetchProducts P env st"
  by (simp add: getProductCatalog_def initial_cache_def)

lemma get_fresh:
  "lastUpdated (productCatalogCache st) = Some t \<Longrightarrow> t \<noteq> 0 \<Longrightarrow>
   now env - t \<le> cacheExpiry (productCatalogCache st) \<Longrightarrow>
   products (productCatalogCache st) \<noteq> [] \<Longrightarrow>
     getProductCatalog P False env st = (Inr (productCatalogCache st), st)"
  by (simp add: getProductCatalog_def)

lemma get_cases:
  "getProductCatalog P force env st = fetchProducts P env st \<or>
   getProductCatalog P force env st = (Inr (productCatalogCache st), st)"
  by (simp add: getProductCatalog_def Let_def)

lemma get_result_stored:
  "getProductCatalog P force env st = (Inr c, st') \<Longrightarrow> productCatalogCache st' = c"
  using get_cases [of P force env st] by (auto dest: fetch_result_stored [OF sym])


lemma get_counts_at_most_one:
  "gateway_fetches (snd (getProductCatalog P force env st)) \<le> gateway_fetches st + 1"
  using get_cases [of P force env st] by (auto simp: fetch_counts)



lemma essential_first_read:
  "\<exists>c st1. getProductCatalog reject_json False (essential_env 1000) initial_state = (Inr c, st1) \<and>
     products c \<noteq> [] \<and> lastUpdated c = Some 1000 \<and> cacheExpiry c = 300000 \<and>
     gateway_fetches st1 = 1"
proof -
  obtain out where out: "organizeProductCatalog reject_json [essential_product] [monthly_price] = Inr out"
    using essential_catalog_exists by blast
  from organize_single [OF out] have ne: "products out \<noteq> []" by auto
  have g: "getProductCatalog reject_json False (essential_env 1000) initial_state =
        fetchProducts reject_json (essential_env 1000) initial_state"
    by (rule get_unpopulated) (simp add: initial_state_def)
  have "stripe_products_list (essential_env 1000) = Inr [essential_product]"
    "stripe_prices_list (essential_env 1000) = Inr [monthly_price]"
    by (simp_all add: essential_env_def)
  from fetch_succeeds [OF this out, of initial_state] g ne show ?thesis
    by (simp add: essential_env_def initial_state_def)
qed


lemma essential_snapshot_prices:
  "\<exists>c st1. getProductCatalog reject_json False (essential_env 1000) initial_state = (Inr c, st1) \<and>
     organized_catalog.prices c ''__proto__'' = None \<and>
     organized_catalog.prices c ''unknown'' = None \<and>
     (\<exists>pv v. organized_catalog.prices c ''essential'' = Some pv \<and>
        pv ''monthly'' = Some v \<and> priceId v = ''price_m'' \<and> pv ''yearly'' = None)"
  by (simp add: getProductCatalog_def fetchProducts_def organizeProductCatalog_def
        organize_product_def add_price_def essential_env_def initial_state_def initial_cache_def
        essential_product_def monthly_price_def or_string_def array_sort_def Let_def)

subsection \<open>The key of a price\<close>

text \<open>
  Claim C4. In the plan of a product, what is stored under a key is the variant of the
  last matched price, in iteration order, whose key by the rule of the specification
  (\<open>month\<close> to \<open>monthly\<close>, any other interval to \<open>yearly\<close>, no recurring descriptor to
  \<open>one_time\<close>) is that key; nothing is stored under a key that no matched price has.
  A later price of the same key replaces the earlier one, and no error arises from it.
\<close>

theorem price_key_last_wins:
  "organize_product P prs p = Inr pl \<Longrightarrow>
     plan.prices pl k =
       map_option variant_of
         (last_option (filter (\<lambda>price. billing_key price = k) (matched_prices prs p)))"
  by (rule price_lookup)

theorem price_key_last_wins_witness:
  "(case organize_product reject_json [monthly_price, monthly_price_2] essential_product of
      Inl e \<Rightarrow> False
    | Inr pl \<Rightarrow>
        map_option priceId (plan.prices pl ''monthly'') = Some ''price_m2'' \<and>
        plan.prices pl ''yearly'' = None)"
proof -
  obtain pl where
    pl: "organize_product reject_json [monthly_price, monthly_price_2] essential_product = Inr pl"
    using essential_plan_exists by blast
  have m: "matched_prices [monthly_price, monthly_price_2] essential_product =
             [monthly_price, monthly_price_2]"
    by (simp add: matched_prices_def monthly_price_def monthly_price_2_def essential_product_def)
  have k1: "billing_key monthly_price = ''monthly''" "billing_key monthly_price_2 = ''monthly''"
    by (simp_all add: billing_key_def monthly_price_def monthly_price_2_def)
  have a: "plan.prices pl ''monthly'' = Some (variant_of monthly_price_2)"
    using price_key_last_wins [OF pl, of "''monthly''"] by (simp add: m k1 last_option_def)
  have b: "plan.prices pl ''yearly'' = None"
    using price_key_last_wins [OF pl, of "''yearly''"] by (simp add: m k1 last_option_def)
  have "map_option priceId (plan.prices pl ''monthly'') = Some ''price_m2''"
    by (simp add: a variant_of_def monthly_price_2_def)
  with b show ?thesis
    by (simp only: pl sum.case simp_thms)
qed

subsection \<open>The number of plans\<close>

text \<open>
  Claim C3, as amended. When the organizer returns, its plan list has one plan for each
  element of the product list it was given: the lengths agree and the product
  identifiers of the plans are those of the list, each as often as it is listed. The
  length is the number of distinct product identifiers when no identifier is listed
  twice.
\<close>

theorem one_plan_per_listed_product:
  "organizeProductCatalog P ps prs = Inr out \<Longrightarrow>
     length (products out) = length ps \<and>
     mset (map plan.id (products out)) = mset (map raw_product.id ps) \<and>
     (distinct (map raw_product.id ps) \<longrightarrow>
        length (products out) = card (raw_product.id ` set ps))"
proof -
  assume a: "organizeProductCatalog P ps prs = Inr out"
  from organize_sorted_plans [OF a] obtain pls where
    m: "map (organize_product P prs) ps = map Inr pls"
    and s: "products out = sort_key displayOrder pls" by blast
  from m have len: "length pls = length ps" by (metis length_map)
  have ids: "map plan.id pls = map raw_product.id ps"
  proof (rule nth_equalityI)
    show "length (map plan.id pls) = length (map raw_product.id ps)" by (simp add: len)
  next
    fix i assume "i < length (map plan.id pls)"
    then have i: "i < length ps" by (simp add: len)
    from map_Inr_nth [OF m i] have "plan.id (pls ! i) = raw_product.id (ps ! i)"
      by (rule organize_product_fields(1))
    with i len show "map plan.id pls ! i = map raw_product.id ps ! i" by simp
  qed
  have "mset (map plan.id (products out)) = image_mset plan.id (mset (products out))" by simp
  also have "\<dots> = image_mset plan.id (mset pls)" by (simp add: s)
  also have "\<dots> = mset (map plan.id pls)" by simp
  finally have ms: "mset (map plan.id (products out)) = mset (map raw_product.id ps)"
    by (simp only: ids)
  have l: "length (products out) = length ps" by (simp add: s len)
  have "distinct (map raw_product.id ps) \<longrightarrow> length (products out) = card (raw_product.id ` set ps)"
    using l distinct_card [of "map raw_product.id ps"] by auto
  with l ms show ?thesis by blast
qed

theorem one_plan_per_listed_product_witness:
  "(case organizeProductCatalog reject_json
           [zero_order_product, plain_product, essential_product] [monthly_price] of
      Inl e \<Rightarrow> False
    | Inr out \<Rightarrow>
        length (products out) = 3 \<and>
        length (products out) =
          card (raw_product.id ` set [zero_order_product, plain_product, essential_product]))"
proof -
  obtain out where out: "organizeProductCatalog reject_json
      [zero_order_product, plain_product, essential_product] [monthly_price] = Inr out"
    using sample_catalog_exists by blast
  from one_plan_per_listed_product [OF out] sample_ids_distinct
  have "length (products out) = 3 \<and>
        length (products out) =
          card (raw_product.id ` set [zero_order_product, plain_product, essential_product])"
    by simp
  then show ?thesis by (simp add: out)
qed

text \<open>
  The claim as it was stated fails on a product list that names one product twice: two
  plans come out, for one distinct identifier.
\<close>

theorem duplicate_product_two_plans:
  "(case organizeProductCatalog reject_json [essential_product, essential_product] [monthly_price] of
      Inl e \<Rightarrow> False
    | Inr out \<Rightarrow>
        length (products out) = 2 \<and>
        card (raw_product.id ` set [essential_product, essential_product]) = 1)"
proof -
  have "\<exists>out. organizeProductCatalog reject_json [essential_product, essential_product]
          [monthly_price] = Inr out"
    by (simp add: organizeProductCatalog_def organize_product_def essential_product_def Let_def
        split: sum.splits prod.splits)
  then obtain out where out: "organizeProductCatalog reject_json
      [essential_product, essential_product] [monthly_price] = Inr out" by blast
  from organize_length [OF out] have "length (products out) = 2" by simp
  moreover have "card (raw_product.id ` set [essential_product, essential_product]) = 1" by simp
  ultimately show ?thesis by (simp add: out)
qed

subsection \<open>Where the keys of a plan come from\<close>

text \<open>
  Claim C5. In every plan of an organize output, every key of the prices mapping is
  the key of a price of the input whose product reference is the identifier of the
  product of the plan, and the variant stored there is made of that price, its
  interval included: no entry exists without a price of the product behind it. The
  correspondence between an interval and a key is the rule of the specification, by
  which \<open>yearly\<close> stands for every recurring interval other than \<open>month\<close>.
\<close>

theorem plan_keys_come_from_prices:
  assumes "organizeProductCatalog P ps prs = Inr out"
    and "pl \<in> set (products out)"
    and "plan.prices pl k = Some v"
  shows "\<exists>price \<in> set prs.
           raw_price.product price = ProductId (plan.id pl) \<and>
           billing_key price = k \<and> v = variant_of price"
proof -
  from organize_sorted_plans [OF assms(1)] obtain pls where
    m: "map (organize_product P prs) ps = map Inr pls"
    and s: "products out = sort_key displayOrder pls" by blast
  from assms(2) s have "pl \<in> set pls" by simp
  from map_Inr_mem [OF m this] obtain p where p: "p \<in> set ps" "organize_product P prs p = Inr pl"
    by blast
  from price_lookup [OF p(2), of k] assms(3)
  have "map_option variant_of
          (last_option (filter (\<lambda>price. billing_key price = k) (matched_prices prs p))) = Some v"
    by simp
  then obtain price where
    l: "last_option (filter (\<lambda>price. billing_key price = k) (matched_prices prs p)) = Some price"
    and v: "v = variant_of price"
    by auto
  from last_option_mem [OF l] have
    mem: "price \<in> set prs" "strict_equal (raw_price.product price) (raw_product.id p)"
      "billing_key price = k"
    by (auto simp: matched_prices_def)
  from mem(2) have "raw_price.product price = ProductId (raw_product.id p)"
    by (cases "raw_price.product price") auto
  with organize_product_fields(1) [OF p(2)] have "raw_price.product price = ProductId (plan.id pl)"
    by simp
  with mem v show ?thesis by blast
qed

theorem plan_keys_come_from_prices_witness:
  "(case organizeProductCatalog reject_json [essential_product] [monthly_price] of
      Inl e \<Rightarrow> False
    | Inr out \<Rightarrow>
        (case products out of
           [pl] \<Rightarrow> plan.prices pl ''monthly'' = Some (variant_of monthly_price)
         | _ \<Rightarrow> False))"
proof -
  obtain out where out: "organizeProductCatalog reject_json [essential_product] [monthly_price] = Inr out"
    using essential_catalog_exists by blast
  from organize_single [OF out] obtain pl where
    pl: "organize_product reject_json [monthly_price] essential_product = Inr pl"
    and ps: "products out = [pl]" by blast
  have m: "matched_prices [monthly_price] essential_product = [monthly_price]"
    by (simp add: matched_prices_def monthly_price_def essential_product_def)
  have k: "billing_key monthly_price = ''monthly''"
    by (simp add: billing_key_def monthly_price_def)
  from price_lookup [OF pl, of "''monthly''"] obtain v where v: "plan.prices pl ''monthly'' = Some v"
    by (simp add: m k last_option_def)
  have mem: "pl \<in> set (products out)" by (simp add: ps)
  from plan_keys_come_from_prices [OF out mem v] have "v = variant_of monthly_price"
    by simp
  with v have "plan.prices pl ''monthly'' = Some (variant_of monthly_price)" by simp
  then show ?thesis by (simp add: out ps)
qed

subsection \<open>The order of the plans\<close>

text \<open>
  Claim C9. The plan list of every organize output is sorted by \<open>displayOrder\<close>, not
  decreasing, and the plans of one \<open>displayOrder\<close> stand in the order in which their
  products stand in the input list.
\<close>

theorem plans_sorted_stably:
  "organizeProductCatalog P ps prs = Inr out \<Longrightarrow>
     sorted (map displayOrder (products out)) \<and>
     (\<exists>pls. map (organize_product P prs) ps = map Inr pls \<and>
        (\<forall>k. filter (\<lambda>pl. displayOrder pl = k) (products out) =
             filter (\<lambda>pl. displayOrder pl = k) pls))"
proof -
  assume a: "organizeProductCatalog P ps prs = Inr out"
  from organize_sorted_plans [OF a] obtain pls where
    m: "map (organize_product P prs) ps = map Inr pls"
    and s: "products out = sort_key displayOrder pls" by blast
  have "sorted (map displayOrder (products out))" by (simp add: s)
  moreover have "\<forall>k. filter (\<lambda>pl. displayOrder pl = k) (products out) =
             filter (\<lambda>pl. displayOrder pl = k) pls"
    by (simp add: s sort_key_stable)
  ultimately show ?thesis using m by blast
qed

theorem plans_sorted_stably_witness:
  "(case organizeProductCatalog reject_json
           [zero_order_product, plain_product, essential_product] [monthly_price] of
      Inl e \<Rightarrow> False
    | Inr out \<Rightarrow>
        sorted (map displayOrder (products out)) \<and>
        map plan.id (filter (\<lambda>pl. displayOrder pl = 999) (products out)) =
          [''prod_456'', ''prod_789''])"
proof -
  obtain out where out: "organizeProductCatalog reject_json
      [zero_order_product, plain_product, essential_product] [monthly_price] = Inr out"
    using sample_catalog_exists by blast
  from plans_sorted_stably [OF out] obtain pls where
    srt: "sorted (map displayOrder (products out))"
    and m: "map (organize_product reject_json [monthly_price])
              [zero_order_product, plain_product, essential_product] = map Inr pls"
    and st: "filter (\<lambda>pl. displayOrder pl = 999) (products out) =
             filter (\<lambda>pl. displayOrder pl = 999) pls"
    by blast
  from m obtain a b c where pls: "pls = [a, b, c]"
    and a: "organize_product reject_json [monthly_price] zero_order_product = Inr a"
    and b: "organize_product reject_json [monthly_price] plain_product = Inr b"
    and c: "organize_product reject_json [monthly_price] essential_product = Inr c"
    by (auto simp: Cons_eq_map_conv)
  have d: "displayOrder a = 999" "displayOrder b = 999" "displayOrder c = 1"
    by (simp_all add: organize_product_fields(3) [OF a] organize_product_fields(3) [OF b]
          organize_product_fields(3) [OF c] sample_orders)
  have i: "plan.id a = ''prod_456''" "plan.id b = ''prod_789''"
    by (simp_all add: organize_product_fields(1) [OF a] organize_product_fields(1) [OF b]
          zero_order_product_def plain_product_def)
  have "map plan.id (filter (\<lambda>pl. displayOrder pl = 999) (products out)) =
          [''prod_456'', ''prod_789'']"
    by (simp add: st pls d i)
  with srt show ?thesis by (simp add: out)
qed

subsection \<open>A product reference that is an object\<close>

text \<open>
  Claim C6. When every price that stands for a product carries the product object as
  its reference, and not the identifier, the filter of the organizer matches none of
  them (strict equality of an object and a string is false), and the plan of that
  product has an empty prices mapping. Scenario B of the specification is the witness.
\<close>

theorem object_reference_matches_nothing:
  assumes "\<forall>price \<in> set prs.
             denoted_product (raw_price.product price) = raw_product.id p \<longrightarrow>
             is_object (raw_price.product price)"
  shows "matched_prices prs p = [] \<and>
         (\<forall>pl. organize_product P prs p = Inr pl \<longrightarrow> plan.prices pl = Map.empty)"
proof -
  have "\<forall>price \<in> set prs. \<not> strict_equal (raw_price.product price) (raw_product.id p)"
  proof
    fix price assume "price \<in> set prs"
    with assms have "denoted_product (raw_price.product price) = raw_product.id p \<longrightarrow>
             is_object (raw_price.product price)" by blast
    then show "\<not> strict_equal (raw_price.product price) (raw_product.id p)"
      by (cases "raw_price.product price") (auto simp: denoted_product_def is_object_def)
  qed
  then have m: "matched_prices prs p = []"
    by (simp add: matched_prices_def)
  then show ?thesis
    by (auto simp: organize_product_fields(2))
qed

theorem object_reference_matches_nothing_witness:
  "denoted_product (raw_price.product expanded_price) = raw_product.id essential_product \<and>
   is_object (raw_price.product expanded_price) \<and>
   matched_prices [expanded_price] essential_product = [] \<and>
   (case organize_product reject_json [expanded_price] essential_product of
      Inl e \<Rightarrow> False
    | Inr pl \<Rightarrow> plan.prices pl = Map.empty)"
proof -
  have d: "denoted_product (raw_price.product expanded_price) = raw_product.id essential_product"
    by (simp add: denoted_product_def expanded_price_def essential_product_def)
  have o: "is_object (raw_price.product expanded_price)"
    by (simp add: is_object_def expanded_price_def)
  from o have h: "\<forall>price \<in> set [expanded_price].
             denoted_product (raw_price.product price) = raw_product.id essential_product \<longrightarrow>
             is_object (raw_price.product price)" by simp
  obtain pl where pl: "organize_product reject_json [expanded_price] essential_product = Inr pl"
    using essential_plan_exists by blast
  from object_reference_matches_nothing [OF h, of reject_json] pl
  have "matched_prices [expanded_price] essential_product = [] \<and> plan.prices pl = Map.empty"
    by blast
  with d o show ?thesis by (simp add: pl)
qed

subsection \<open>The display order zero\<close>

text \<open>
  Claim C10. The text \<open>0\<close> parses to the integer zero, and a product whose
  \<open>display_order\<close> parses to zero gets the \<open>displayOrder\<close> 999: zero is falsy and the
  default is taken. In the sorted output its plan therefore stands behind every plan
  whose \<open>displayOrder\<close> is below 999.
\<close>

theorem zero_display_order_becomes_999:
  assumes "organizeProductCatalog P ps prs = Inr out"
    and "p \<in> set ps"
    and "parseInt (raw_product.metadata p ''display_order'') = Some 0"
  shows "parseInt (Some ''0'') = Some 0 \<and>
         (\<exists>i < length (products out).
            organize_product P prs p = Inr (products out ! i) \<and>
            displayOrder (products out ! i) = 999 \<and>
            (\<forall>j < length (products out). displayOrder (products out ! j) < 999 \<longrightarrow> j < i))"
proof -
  have z: "parseInt (Some ''0'') = Some 0"
    by (simp add: parseInt_def is_whitespace_def is_digit_of_def digit_value_def
          digits_value_def Let_def)
  from organize_sorted_plans [OF assms(1)] obtain pls where
    m: "map (organize_product P prs) ps = map Inr pls"
    and s: "products out = sort_key displayOrder pls" by blast
  from assms(2) obtain n where n: "n < length ps" "ps ! n = p"
    by (auto simp: in_set_conv_nth)
  from m have len: "length pls = length ps" by (metis length_map)
  from map_Inr_nth [OF m n(1)] n(2) have pl: "organize_product P prs p = Inr (pls ! n)" by simp
  from n(1) len have "pls ! n \<in> set (products out)" by (simp add: s)
  then obtain i where i: "i < length (products out)" "products out ! i = pls ! n"
    by (auto simp: in_set_conv_nth)
  from organize_product_fields(3) [OF pl] assms(3) have d: "displayOrder (pls ! n) = 999"
    by (simp add: or_number_def)
  have srt: "sorted (map displayOrder (products out))" by (simp add: s)
  have "\<forall>j < length (products out). displayOrder (products out ! j) < 999 \<longrightarrow> j < i"
  proof (intro allI impI)
    fix j assume j: "j < length (products out)" "displayOrder (products out ! j) < 999"
    show "j < i"
    proof (rule ccontr)
      assume "\<not> j < i"
      then have "i \<le> j" by simp
      with srt j(1) have "map displayOrder (products out) ! i \<le> map displayOrder (products out) ! j"
        by (simp add: sorted_iff_nth_mono)
      with i j d show False by simp
    qed
  qed
  with z pl i d show ?thesis by auto
qed

theorem zero_display_order_becomes_999_witness:
  "(case organizeProductCatalog reject_json
           [zero_order_product, plain_product, essential_product] [monthly_price] of
      Inl e \<Rightarrow> False
    | Inr out \<Rightarrow>
        (\<exists>i < length (products out).
            plan.id (products out ! i) = ''prod_456'' \<and>
            displayOrder (products out ! i) = 999))"
proof -
  obtain out where out: "organizeProductCatalog reject_json
      [zero_order_product, plain_product, essential_product] [monthly_price] = Inr out"
    using sample_catalog_exists by blast
  have mem: "zero_order_product \<in> set [zero_order_product, plain_product, essential_product]"
    by simp
  from zero_display_order_becomes_999 [OF out mem zero_order_parse] obtain i where
    i: "i < length (products out)"
    "organize_product reject_json [monthly_price] zero_order_product = Inr (products out ! i)"
    "displayOrder (products out ! i) = 999"
    by blast
  from organize_product_fields(1) [OF i(2)] have "plan.id (products out ! i) = ''prod_456''"
    by (simp add: zero_order_product_def)
  with i show ?thesis by (auto simp: out)
qed

subsection \<open>Reads within the time to live\<close>

text \<open>
  Claim C1, as amended. A \<open>getProductCatalog(false)\<close> that finds a snapshot with at least
  one plan, with a time stamp that is not zero and not older than the time to live,
  makes no fetch and returns the stored snapshot, the state unchanged. So when a
  \<open>getProductCatalog(false)\<close> has returned such a snapshot, having made at most one
  fetch, a second one within the time to live returns the same snapshot and makes no
  fetch. A \<open>getProductCatalog(false)\<close> that finds a snapshot without plans makes exactly
  one fetch, whatever the age of the snapshot. Every \<open>getProductCatalog(true)\<close> makes
  exactly one fetch, whatever the age of the snapshot.
\<close>

theorem fresh_nonempty_snapshot_is_reused:
  "(lastUpdated (productCatalogCache st) = Some t \<and> t \<noteq> 0 \<and>
    now env - t \<le> cacheExpiry (productCatalogCache st) \<and>
    products (productCatalogCache st) \<noteq> [] \<longrightarrow>
      getProductCatalog P False env st = (Inr (productCatalogCache st), st)) \<and>
   (getProductCatalog P False env st = (Inr c, st') \<and> products c \<noteq> [] \<and>
    lastUpdated c = Some u \<and> u \<noteq> 0 \<and> now env' - u \<le> cacheExpiry c \<longrightarrow>
      getProductCatalog P False env' st' = (Inr c, st') \<and>
      gateway_fetches st' \<le> gateway_fetches st + 1) \<and>
   (products (productCatalogCache st) = [] \<longrightarrow>
      getProductCatalog P False env st = fetchProducts P env st \<and>
      gateway_fetches (snd (getProductCatalog P False env st)) = gateway_fetches st + 1) \<and>
   gateway_fetches (snd (getProductCatalog P True env st)) = gateway_fetches st + 1"
proof (intro conjI impI)
  assume "lastUpdated (productCatalogCache st) = Some t \<and> t \<noteq> 0 \<and>
    now env - t \<le> cacheExpiry (productCatalogCache st) \<and>
    products (productCatalogCache st) \<noteq> []"
  then show "getProductCatalog P False env st = (Inr (productCatalogCache st), st)"
    by (simp add: get_fresh)
next
  assume a: "getProductCatalog P False env st = (Inr c, st') \<and> products c \<noteq> [] \<and>
    lastUpdated c = Some u \<and> u \<noteq> 0 \<and> now env' - u \<le> cacheExpiry c"
  then have "productCatalogCache st' = c" by (auto dest: get_result_stored)
  with a show "getProductCatalog P False env' st' = (Inr c, st')"
    using get_fresh [of st' u env' P] by simp
next
  assume a: "getProductCatalog P False env st = (Inr c, st') \<and> products c \<noteq> [] \<and>
    lastUpdated c = Some u \<and> u \<noteq> 0 \<and> now env' - u \<le> cacheExpiry c"
  with get_counts_at_most_one [of P False env st]
  show "gateway_fetches st' \<le> gateway_fetches st + 1" by simp
next
  assume e: "products (productCatalogCache st) = []"
  then show g: "getProductCatalog P False env st = fetchProducts P env st"
    by (simp add: getProductCatalog_def)
  show "gateway_fetches (snd (getProductCatalog P False env st)) = gateway_fetches st + 1"
    by (simp add: g fetch_counts)
next
  show "gateway_fetches (snd (getProductCatalog P True env st)) = gateway_fetches st + 1"
    by (simp add: get_forced fetch_counts)
qed

theorem fresh_nonempty_snapshot_is_reused_witness:
  "(let r1 = getProductCatalog reject_json False (essential_env 1000) initial_state;
        r2 = getProductCatalog reject_json False (essential_env 2000) (snd r1);
        r3 = getProductCatalog reject_json True (essential_env 3000) (snd r2)
    in products (productCatalogCache initial_state) = [] \<and>
       gateway_fetches (snd r1) = 1 \<and>
       r2 = r1 \<and> gateway_fetches (snd r2) = 1 \<and> gateway_fetches (snd r3) = 2)"
proof -
  obtain c st1 where r1: "getProductCatalog reject_json False (essential_env 1000) initial_state = (Inr c, st1)"
    and c: "products c \<noteq> []" "lastUpdated c = Some 1000" "cacheExpiry c = 300000"
    using essential_first_read by blast
  have e: "products (productCatalogCache initial_state) = []"
    by (simp add: initial_state_def initial_cache_def)
  from fresh_nonempty_snapshot_is_reused
    [where st = initial_state and env = "essential_env 1000" and P = reject_json] e
  have "gateway_fetches (snd (getProductCatalog reject_json False (essential_env 1000) initial_state)) =
          gateway_fetches initial_state + 1"
    by blast
  moreover have "gateway_fetches initial_state = 0"
    by (simp add: initial_state_def)
  ultimately have n: "gateway_fetches st1 = 1"
    by (simp add: r1)
  have t: "now (essential_env 2000) - 1000 \<le> cacheExpiry c"
    by (simp add: c essential_env_def)
  have h: "getProductCatalog reject_json False (essential_env 1000) initial_state = (Inr c, st1) \<and>
      products c \<noteq> [] \<and> lastUpdated c = Some 1000 \<and> (1000::int) \<noteq> 0 \<and>
      now (essential_env 2000) - 1000 \<le> cacheExpiry c"
    using r1 c t by simp
  from fresh_nonempty_snapshot_is_reused
    [where st = initial_state and env = "essential_env 1000" and P = reject_json and c = c
       and st' = st1 and u = 1000 and env' = "essential_env 2000"] h
  have r2: "getProductCatalog reject_json False (essential_env 2000) st1 = (Inr c, st1)"
    by blast
  from fresh_nonempty_snapshot_is_reused
    [where st = st1 and env = "essential_env 3000" and P = reject_json]
  have r3: "gateway_fetches (snd (getProductCatalog reject_json True (essential_env 3000) st1)) =
              gateway_fetches st1 + 1"
    by blast
  show ?thesis by (simp add: r1 r2 r3 n e Let_def)
qed

text \<open>
  The claim as it was stated fails when the refresh has stored a snapshot without
  plans: the read fetches whenever the stored plan list is empty, so each of two reads
  that follow the refresh within the time to live makes a fetch of its own and returns
  a new snapshot.
\<close>

theorem empty_catalog_is_fetched_again:
  "(let r1 = getProductCatalog reject_json True (empty_gateway_env 1000) initial_state;
        r2 = getProductCatalog reject_json False (empty_gateway_env 1001) (snd r1);
        r3 = getProductCatalog reject_json False (empty_gateway_env 1002) (snd r2)
    in fst r1 = Inr (initial_cache \<lparr> lastUpdated := Some 1000 \<rparr>) \<and>
       gateway_fetches (snd r1) = 1 \<and>
       fst r2 = Inr (initial_cache \<lparr> lastUpdated := Some 1001 \<rparr>) \<and>
       gateway_fetches (snd r2) = 2 \<and>
       fst r3 = Inr (initial_cache \<lparr> lastUpdated := Some 1002 \<rparr>) \<and>
       gateway_fetches (snd r3) = 3)"
  by (simp add: getProductCatalog_def fetchProducts_def organizeProductCatalog_def
        empty_gateway_env_def initial_state_def initial_cache_def array_sort_def Let_def)

subsection \<open>A refresh that fails\<close>



subsection \<open>Reads of a cache that was never populated\<close>

text \<open>
  Claim C7, as amended. A cache that was never populated holds the initial value. Every
  read of it through \<open>getProductCatalog\<close>, forced or not, makes a refresh attempt first.
  When the attempt fails, the \<open>GET /products\<close> handler answers with status 500 and the
  message of the error, and the cache is unchanged; when it succeeds, the handler
  answers with the plan list of the new snapshot, which has one plan for each product
  that the gateway listed.
\<close>

theorem unpopulated_read_refreshes:
  assumes "productCatalogCache st = initial_cache"
  shows "getProductCatalog P force env st = fetchProducts P env st \<and>
    (refresh_error P env = Some err \<longrightarrow>
       get_products_handler P q env st =
         (Json500 ''Failed to fetch product catalog'' (message err),
          st\<lparr> gateway_fetches := gateway_fetches st + 1 \<rparr>)) \<and>
    (stripe_products_list env = Inr ps \<and> stripe_prices_list env = Inr prs \<and>
     organizeProductCatalog P ps prs = Inr out \<longrightarrow>
       fst (get_products_handler P q env st) =
         Json200 (products out) (Some (now_at_update env)) 300000 \<and>
       length (products out) = length ps)"
proof (intro conjI impI)
  show g: "getProductCatalog P force env st = fetchProducts P env st"
    using assms by (rule get_unpopulated)
  {
    assume "refresh_error P env = Some err"
    from fetch_fails [OF this, of st]
    show "get_products_handler P q env st =
         (Json500 ''Failed to fetch product catalog'' (message err),
          st\<lparr> gateway_fetches := gateway_fetches st + 1 \<rparr>)"
      by (simp add: get_products_handler_def get_unpopulated [OF assms])
  next
    assume a: "stripe_products_list env = Inr ps \<and> stripe_prices_list env = Inr prs \<and>
     organizeProductCatalog P ps prs = Inr out"
    then have "stripe_products_list env = Inr ps" "stripe_prices_list env = Inr prs"
      "organizeProductCatalog P ps prs = Inr out" by simp_all
    from fetch_succeeds [OF this, of st]
    show "fst (get_products_handler P q env st) =
         Json200 (products out) (Some (now_at_update env)) 300000"
      by (simp add: get_products_handler_def get_unpopulated [OF assms])
    from a have "organizeProductCatalog P ps prs = Inr out" by simp
    then show "length (products out) = length ps"
      by (rule organize_length)
  }
qed

theorem unpopulated_read_refreshes_witness:
  "get_products_handler reject_json None failing_env initial_state =
     (Json500 ''Failed to fetch product catalog'' ''connection refused'',
      initial_state\<lparr> gateway_fetches := 1 \<rparr>) \<and>
   (case fst (get_products_handler reject_json None (essential_env 1000) initial_state) of
      Json200 ps t ttl \<Rightarrow> length ps = 1 \<and> t = Some 1000
    | Json500 a b \<Rightarrow> False)"
proof -
  have i: "productCatalogCache initial_state = initial_cache"
    by (simp add: initial_state_def)
  have e: "refresh_error reject_json failing_env = Some (StripeError ''connection refused'')"
    by (simp add: refresh_error_def failing_env_def)
  from unpopulated_read_refreshes [OF i, where P = reject_json and env = failing_env
      and err = "StripeError ''connection refused''" and q = None] e
  have a: "get_products_handler reject_json None failing_env initial_state =
     (Json500 ''Failed to fetch product catalog'' ''connection refused'',
      initial_state\<lparr> gateway_fetches := 1 \<rparr>)"
    by (simp add: initial_state_def)
  obtain out where out: "organizeProductCatalog reject_json [essential_product] [monthly_price] = Inr out"
    using essential_catalog_exists by blast
  have "stripe_products_list (essential_env 1000) = Inr [essential_product] \<and>
     stripe_prices_list (essential_env 1000) = Inr [monthly_price] \<and>
     organizeProductCatalog reject_json [essential_product] [monthly_price] = Inr out"
    by (simp add: essential_env_def out)
  with unpopulated_read_refreshes [OF i, where P = reject_json and env = "essential_env 1000"
      and q = None and ps = "[essential_product]" and prs = "[monthly_price]" and out = out]
  have "fst (get_products_handler reject_json None (essential_env 1000) initial_state) =
         Json200 (products out) (Some (now_at_update (essential_env 1000))) 300000 \<and>
       length (products out) = length [essential_product]"
    by blast
  then have b: "(case fst (get_products_handler reject_json None (essential_env 1000) initial_state) of
      Json200 ps t ttl \<Rightarrow> length ps = 1 \<and> t = Some 1000
    | Json500 a b \<Rightarrow> False)"
    by (simp add: essential_env_def)
  from a b show ?thesis by blast
qed

text \<open>
  The claim as it was stated fails when the gateway cannot be reached: the read of the
  never populated cache is an error, not an empty plan list.
\<close>

theorem unpopulated_read_surfaces_error:
  "productCatalogCache initial_state = initial_cache \<and>
   fst (getProductCatalog reject_json False failing_env initial_state) =
     Inl (StripeError ''connection refused'') \<and>
   fst (get_products_handler reject_json None failing_env initial_state) =
     Json500 ''Failed to fetch product catalog'' ''connection refused''"
  by (simp add: get_products_handler_def getProductCatalog_def fetchProducts_def
        failing_env_def initial_state_def initial_cache_def Let_def)

subsection \<open>Validation of a price\<close>

text \<open>
  Claim C8, as amended. \<open>validatePriceId\<close> first reads the catalog with
  \<open>getProductCatalog(false)\<close>. When that read throws, which can happen whenever it makes
  a refresh attempt, as it always does on an empty or never populated cache,
  \<open>validatePriceId\<close> throws the same error. When that read returns a snapshot in which no
  plan has the identifier \<open>__proto__\<close>, and neither the plan identifier nor the billing
  cycle of the call is the name of a member that plain objects inherit, then
  \<open>validatePriceId\<close> returns normally: \<open>null\<close> for every pair that the lookup mapping of
  the snapshot does not hold, and the price identifier for a pair that it holds. What
  the call does for a name that plain objects inherit is not stated.
\<close>

theorem validatePriceId_absent_pair:
  "(getProductCatalog P False env st = (Inl err, st') \<longrightarrow>
      validatePriceId rt P plan_key billingCycle env st = (Inl err, st')) \<and>
   (getProductCatalog P False env st = (Inr catalog, st') \<and>
    inherited rt plan_key = Undefined \<and> inherited rt billingCycle = Undefined \<and>
    organized_catalog.prices catalog ''__proto__'' = None \<longrightarrow>
      validatePriceId rt P plan_key billingCycle env st =
        (Inr (case organized_catalog.prices catalog plan_key of
                None \<Rightarrow> Null
              | Some planPrices \<Rightarrow>
                  (case planPrices billingCycle of
                     None \<Rightarrow> Null
                   | Some variant \<Rightarrow> String (priceId variant))), st'))"
  by (auto simp: validatePriceId_def prices_member_def get_property_def variant_property_def
        Let_def split: option.splits)

theorem validatePriceId_absent_pair_witness:
  "fst (validatePriceId sample_runtime reject_json ''essential'' ''yearly''
          (essential_env 1000) initial_state) = Inr Null \<and>
   fst (validatePriceId sample_runtime reject_json ''unknown'' ''monthly''
          (essential_env 1000) initial_state) = Inr Null \<and>
   fst (validatePriceId sample_runtime reject_json ''essential'' ''monthly''
          (essential_env 1000) initial_state) = Inr (String ''price_m'') \<and>
   validatePriceId sample_runtime reject_json ''essential'' ''monthly'' failing_env initial_state =
     (Inl (StripeError ''connection refused''),
      snd (getProductCatalog reject_json False failing_env initial_state))"
proof -
  obtain c st1 pv v where
    g1: "getProductCatalog reject_json False (essential_env 1000) initial_state = (Inr c, st1)"
    and np: "organized_catalog.prices c ''__proto__'' = None"
    and un: "organized_catalog.prices c ''unknown'' = None"
    and es: "organized_catalog.prices c ''essential'' = Some pv"
    and pv: "pv ''monthly'' = Some v" "priceId v = ''price_m''" "pv ''yearly'' = None"
    using essential_snapshot_prices by blast
  have names: "inherited sample_runtime ''essential'' = Undefined"
    "inherited sample_runtime ''unknown'' = Undefined"
    "inherited sample_runtime ''monthly'' = Undefined"
    "inherited sample_runtime ''yearly'' = Undefined"
    by (simp_all add: sample_runtime_def object_prototype_methods_def)
  from validatePriceId_absent_pair [where P = reject_json and env = "essential_env 1000"
      and st = initial_state and catalog = c and st' = st1
      and rt = sample_runtime and plan_key = "''essential''" and billingCycle = "''yearly''"]
    g1 names np
  have w1: "fst (validatePriceId sample_runtime reject_json ''essential'' ''yearly''
          (essential_env 1000) initial_state) = Inr Null"
    by (simp add: es pv)
  from validatePriceId_absent_pair [where P = reject_json and env = "essential_env 1000"
      and st = initial_state and catalog = c and st' = st1
      and rt = sample_runtime and plan_key = "''unknown''" and billingCycle = "''monthly''"]
    g1 names np
  have w2: "fst (validatePriceId sample_runtime reject_json ''unknown'' ''monthly''
          (essential_env 1000) initial_state) = Inr Null"
    by (simp add: un)
  from validatePriceId_absent_pair [where P = reject_json and env = "essential_env 1000"
      and st = initial_state and catalog = c and st' = st1
      and rt = sample_runtime and plan_key = "''essential''" and billingCycle = "''monthly''"]
    g1 names np
  have w3: "fst (validatePriceId sample_runtime reject_json ''essential'' ''monthly''
          (essential_env 1000) initial_state) = Inr (String ''price_m'')"
    by (simp add: es pv)
  have g2: "getProductCatalog reject_json False failing_env initial_state =
     (Inl (StripeError ''connection refused''),
      snd (getProductCatalog reject_json False failing_env initial_state))"
    by (simp add: getProductCatalog_def fetchProducts_def
        failing_env_def initial_state_def initial_cache_def Let_def)
  from validatePriceId_absent_pair [where P = reject_json and env = failing_env
      and st = initial_state and err = "StripeError ''connection refused''"
      and st' = "snd (getProductCatalog reject_json False failing_env initial_state)"
      and rt = sample_runtime and plan_key = "''essential''" and billingCycle = "''monthly''"] g2
  have w4: "validatePriceId sample_runtime reject_json ''essential'' ''monthly'' failing_env
       initial_state =
     (Inl (StripeError ''connection refused''),
      snd (getProductCatalog reject_json False failing_env initial_state))"
    by blast
  from w1 w2 w3 w4 show ?thesis by blast
qed

text \<open>
  The claim as it was stated fails on the never populated cache when the gateway cannot
  be reached: the pair is absent from the snapshot, and the call throws.
\<close>

theorem validatePriceId_throws_when_refresh_fails:
  "organized_catalog.prices (productCatalogCache initial_state) ''essential'' = None \<and>
   validatePriceId sample_runtime reject_json ''essential'' ''monthly'' failing_env initial_state =
     (Inl (StripeError ''connection refused''), initial_state\<lparr> gateway_fetches := 1 \<rparr>)"
  by (simp add: validatePriceId_def getProductCatalog_def fetchProducts_def
        failing_env_def initial_state_def initial_cache_def Let_def)

text \<open>
  The names that plain objects inherit, which the amended claim leaves out. In the
  sample runtime, on the snapshot of scenario A: the call with \<open>constructor\<close> and \<open>name\<close>
  and the call with \<open>essential\<close> and \<open>toString\<close> return \<open>undefined\<close>, not \<open>null\<close>, and the call
  with \<open>constructor\<close> and \<open>caller\<close> throws a \<open>TypeError\<close>.
\<close>

lemma validatePriceId_inherited_names:
  "fst (validatePriceId sample_runtime reject_json ''constructor'' ''name''
          (essential_env 1000) initial_state) = Inr Undefined \<and>
   fst (validatePriceId sample_runtime reject_json ''essential'' ''toString''
          (essential_env 1000) initial_state) = Inr Undefined \<and>
   fst (validatePriceId sample_runtime reject_json ''constructor'' ''caller''
          (essential_env 1000) initial_state) =
     Inl (TypeError ''restricted function property'')"
  by (simp add: validatePriceId_def prices_member_def get_property_def sample_runtime_def
        object_prototype_methods_def
        getProductCatalog_def fetchProducts_def organizeProductCatalog_def
        organize_product_def add_price_def essential_env_def initial_state_def initial_cache_def
        essential_product_def monthly_price_def or_string_def array_sort_def Let_def)

end
